theory Spec2Isabelle
  imports Complex_Main "HOL-Library.Word"
begin

section \<open>Python values\<close>

text \<open>
  The two scripts are \<^verbatim>\<open>TestHttpServer/test-http-server.py\<close> (the echo logger,
  class \<^verbatim>\<open>JMSMessageHandler\<close>) and \<^verbatim>\<open>TestHttpServer/transaction-test-server.py\<close>
  (the fault-injection server, class \<^verbatim>\<open>TransactionTestHandler\<close>).

  A Python float is a finite value, an infinity or NaN. Finite values are kept as the
  rational they denote; the comparisons below are the IEEE ones Python uses (every
  comparison with NaN is false).
\<close>

datatype pyfloat = Finite rat | PosInf | NegInf | NaN

fun float_lt :: "pyfloat \<Rightarrow> pyfloat \<Rightarrow> bool" where
  "float_lt (Finite a) (Finite b) = (a < b)"
| "float_lt (Finite a) PosInf = True"
| "float_lt (Finite a) NegInf = False"
| "float_lt (Finite a) NaN = False"
| "float_lt PosInf y = False"
| "float_lt NegInf (Finite b) = True"
| "float_lt NegInf PosInf = True"
| "float_lt NegInf NegInf = False"
| "float_lt NegInf NaN = False"
| "float_lt NaN y = False"

fun float_le :: "pyfloat \<Rightarrow> pyfloat \<Rightarrow> bool" where
  "float_le (Finite a) (Finite b) = (a \<le> b)"
| "float_le (Finite a) PosInf = True"
| "float_le (Finite a) NegInf = False"
| "float_le (Finite a) NaN = False"
| "float_le PosInf PosInf = True"
| "float_le PosInf y = False"
| "float_le NegInf NaN = False"
| "float_le NegInf y = True"
| "float_le NaN y = False"

text \<open>The float literals of the source. \<^verbatim>\<open>0.3\<close> is the double nearest to 3/10.\<close>

definition float_0_0 :: pyfloat where
  "float_0_0 = Finite 0"

definition float_1_0 :: pyfloat where
  "float_1_0 = Finite 1"

definition float_0_3 :: pyfloat where
  "float_0_3 = Finite (5404319552844595 / 18014398509481984)"

text \<open>
  What \<^verbatim>\<open>json.loads\<close> returns: \<^verbatim>\<open>None\<close>, a bool, an int, a float, a str, a list
  or a dict. A dict is the list of its items in insertion order.

  A Python str is a sequence of code points; it is kept as the bytes of its UTF-8
  encoding, a lone surrogate as the three bytes the encoding scheme gives its code point
  (\<^verbatim>\<open>ED A0 80\<close> for U+D800). Different strs are different byte strings, the empty str
  is the empty one, and a str is ASCII exactly when every byte is below 128. The handlers
  compare strs, test them for emptiness and slice one ASCII str, nothing else.
\<close>

datatype json =
    JNull
  | JBool bool
  | JInt int
  | JFloat pyfloat
  | JStr string
  | JList "json list"
  | JDict "(string \<times> json) list"

text \<open>
  Exceptions: the class and \<^verbatim>\<open>str(e)\<close>. Every class listed derives from
  \<^verbatim>\<open>Exception\<close>, so \<^verbatim>\<open>except Exception\<close> catches each of them, and
  \<^verbatim>\<open>except json.JSONDecodeError\<close> catches exactly the class \<open>JSONDecodeError\<close>.
\<close>

datatype exn_class =
    ValueError
  | OSError
  | UnicodeDecodeError
  | UnicodeEncodeError
  | JSONDecodeError
  | RecursionError
  | AttributeError
  | KeyError
  | TypeError
  | UnboundLocalError

datatype py_exn = PyExn (exn_class: exn_class) (exn_str: string)

definition quoted :: "string \<Rightarrow> string" where
  "quoted s = CHR 0x27 # s @ [CHR 0x27]"

fun type_name :: "json \<Rightarrow> string" where
  "type_name JNull = ''NoneType''"
| "type_name (JBool b) = ''bool''"
| "type_name (JInt i) = ''int''"
| "type_name (JFloat f) = ''float''"
| "type_name (JStr s) = ''str''"
| "type_name (JList xs) = ''list''"
| "type_name (JDict kvs) = ''dict''"

definition attribute_error :: "json \<Rightarrow> string \<Rightarrow> py_exn" where
  "attribute_error v a =
     PyExn AttributeError (quoted (type_name v) @ '' object has no attribute '' @ quoted a)"

text \<open>\<^verbatim>\<open>v.get(k, d)\<close>: only a dict has the method.\<close>

fun py_get :: "json \<Rightarrow> string \<Rightarrow> json \<Rightarrow> py_exn + json" where
  "py_get (JDict kvs) k d = Inr (case map_of kvs k of None \<Rightarrow> d | Some v \<Rightarrow> v)"
| "py_get v k d = Inl (attribute_error v ''get'')"

text \<open>\<^verbatim>\<open>v[k]\<close> with a str key.\<close>

fun py_getitem :: "json \<Rightarrow> string \<Rightarrow> py_exn + json" where
  "py_getitem (JDict kvs) k =
     (case map_of kvs k of None \<Rightarrow> Inl (PyExn KeyError (quoted k)) | Some v \<Rightarrow> Inr v)"
| "py_getitem (JList xs) k =
     Inl (PyExn TypeError ''list indices must be integers or slices, not str'')"
| "py_getitem (JStr s) k =
     Inl (PyExn TypeError ''string indices must be integers'')"
| "py_getitem v k =
     Inl (PyExn TypeError (quoted (type_name v) @ '' object is not subscriptable''))"

text \<open>\<^verbatim>\<open>v.items()\<close>: only a dict has the method.\<close>

fun py_items :: "json \<Rightarrow> py_exn + (string \<times> json) list" where
  "py_items (JDict kvs) = Inr kvs"
| "py_items v = Inl (attribute_error v ''items'')"

text \<open>Truth value of a value in an \<^verbatim>\<open>if\<close>.\<close>

fun truthy :: "json \<Rightarrow> bool" where
  "truthy JNull = False"
| "truthy (JBool b) = b"
| "truthy (JInt i) = (i \<noteq> 0)"
| "truthy (JFloat f) = (f \<noteq> Finite 0)"
| "truthy (JStr s) = (s \<noteq> [])"
| "truthy (JList xs) = (xs \<noteq> [])"
| "truthy (JDict kvs) = (kvs \<noteq> [])"

section \<open>Requests, the environment and what a handler does\<close>

text \<open>
  One request, as the calls a handler makes on it see it, in the order the handlers make
  them: \<^verbatim>\<open>int(self.headers.get('Content-Length', 0))\<close>, then
  \<^verbatim>\<open>self.rfile.read(content_length)\<close>, then \<^verbatim>\<open>.decode('utf-8')\<close> of the bytes read,
  then \<^verbatim>\<open>json.loads\<close> of the decoded text. Each either returns a value or raises. A
  handler that stops at a raise never looks at the later fields.
\<close>

record request =
  content_length :: "py_exn + int"
  rfile_read :: "py_exn + 8 word list"
  decode_utf8 :: "py_exn + string"
  json_loads :: "py_exn + json"

text \<open>
  A line given to \<^verbatim>\<open>print\<close> is an f-string: its literal pieces (\<open>Lit\<close>), the
  interpolated values the program made itself, as the counter, a status code, the text of
  the clock (\<open>Val\<close>), and the interpolated values that come from the request, as a field
  of the parsed message (\<open>Msg\<close>).
\<close>

datatype fpart = Lit string | Val json | Msg json

text \<open>
  The random source, the clock and the console for one request: the value of \<^verbatim>\<open>random.random()\<close>
  (a float in [0, 1)), the index \<^verbatim>\<open>random.choice\<close> draws (below the length of the list
  it chooses from), \<^verbatim>\<open>datetime.now().strftime('%Y-%m-%d %H:%M:%S.%f')\<close>,
  \<^verbatim>\<open>str(datetime.now())\<close> and \<^verbatim>\<open>int(time.time() * 1000)\<close>. The ranges are not part
  of the type; a property that needs them assumes them.

  \<open>stdout_write\<close> is what \<^verbatim>\<open>print\<close> does with a line that carries a value from the
  request which is a list, a dict or a str with a non-ASCII character: \<open>None\<close> when the
  line is written, the exception otherwise (\<^verbatim>\<open>UnicodeEncodeError\<close> when the console's
  encoding has no bytes for a character, as none has for a lone surrogate). Every other
  line renders in ASCII and is written.

  \<open>json_dumps\<close> is what \<^verbatim>\<open>json.dumps\<close> does with a response that holds a list or a
  dict from the request: \<open>None\<close> when it returns the text, the exception otherwise
  (\<^verbatim>\<open>RecursionError\<close> when the value is nested too deeply for the interpreter's stack).
  Every other response is serialised.
\<close>

record world =
  random_random :: rat
  random_choice :: nat
  strftime_now :: string
  datetime_now :: string
  epoch_millis :: int
  stdout_write :: "fpart list \<Rightarrow> py_exn option"
  json_dumps :: "json \<Rightarrow> py_exn option"

text \<open>
  What a handler does, in order: the console lines it prints and what it sends on the
  connection. \<open>Write v\<close> is \<^verbatim>\<open>self.wfile.write(json.dumps(v).encode('utf-8'))\<close>
  (\<^verbatim>\<open>json.dumps\<close> escapes every non-ASCII character, so the encoding cannot fail).
  Socket writes are taken to succeed. The access-log lines the library routes through
  \<^verbatim>\<open>log_message\<close> are not recorded and are taken to be written.
\<close>

datatype event =
    Sleep rat
  | Print "fpart list"
  | SendResponse nat
  | SendHeader string string
  | EndHeaders
  | Write json
  | SendError nat string

record result =
  events :: "event list"
  raised :: "py_exn option"

text \<open>The status line of the response, and a field of the JSON body written.\<close>

fun status_of :: "event list \<Rightarrow> nat option" where
  "status_of [] = None"
| "status_of (SendResponse c # evs) = Some c"
| "status_of (SendError c m # evs) = Some c"
| "status_of (ev # evs) = status_of evs"

fun body_of :: "event list \<Rightarrow> json option" where
  "body_of [] = None"
| "body_of (Write v # evs) = Some v"
| "body_of (ev # evs) = body_of evs"

definition body_field :: "event list \<Rightarrow> string \<Rightarrow> json option" where
  "body_field evs k =
     (case body_of evs of Some (JDict kvs) \<Rightarrow> map_of kvs k | _ \<Rightarrow> None)"


text \<open>\<^verbatim>\<open>print\<close>: which lines are written whatever the console, and what the others raise.\<close>

definition ascii_text :: "string \<Rightarrow> bool" where
  "ascii_text s = list_all (\<lambda>c. (of_char c :: nat) < 128) s"

fun plain_ascii :: "json \<Rightarrow> bool" where
  "plain_ascii (JStr s) = ascii_text s"
| "plain_ascii (JList xs) = False"
| "plain_ascii (JDict kvs) = False"
| "plain_ascii v = True"

fun console_safe :: "fpart \<Rightarrow> bool" where
  "console_safe (Msg v) = plain_ascii v"
| "console_safe p = True"

definition print_raises :: "world \<Rightarrow> fpart list \<Rightarrow> py_exn option" where
  "print_raises w line = (if list_all console_safe line then None else stdout_write w line)"

text \<open>
  \<^verbatim>\<open>json.dumps\<close>: a response whose fields are \<^verbatim>\<open>None\<close>, bools, numbers and strs is
  serialised; for the others the interpreter decides.
\<close>

fun scalar :: "json \<Rightarrow> bool" where
  "scalar (JList xs) = False"
| "scalar (JDict kvs) = False"
| "scalar v = True"

fun flat :: "json \<Rightarrow> bool" where
  "flat (JDict kvs) = list_all (\<lambda>kv. scalar (snd kv)) kvs"
| "flat v = scalar v"

definition dumps_raises :: "world \<Rightarrow> json \<Rightarrow> py_exn option" where
  "dumps_raises w v = (if flat v then None else json_dumps w v)"

text \<open>
  Statements that print, send or raise, run in sequence: a block stops at the first
  statement that raises and keeps what was done before it.
\<close>

definition skip :: result where
  "skip = \<lparr>events = [], raised = None\<rparr>"

definition emit :: "event \<Rightarrow> result" where
  "emit ev = \<lparr>events = [ev], raised = None\<rparr>"

definition py_raise :: "py_exn \<Rightarrow> result" where
  "py_raise e = \<lparr>events = [], raised = Some e\<rparr>"

definition py_print :: "world \<Rightarrow> fpart list \<Rightarrow> result" where
  "py_print w line =
     (case print_raises w line of
        None \<Rightarrow> emit (Print line)
      | Some e \<Rightarrow> py_raise e)"

fun block :: "result list \<Rightarrow> result" where
  "block [] = skip"
| "block (s # ss) =
     (case raised s of
        Some e \<Rightarrow> s
      | None \<Rightarrow>
          (let rest = block ss in
           \<lparr>events = events s @ events rest, raised = raised rest\<rparr>))"

text \<open>
  A list of prints and sends run in order: a \<open>Print\<close> goes through the console, a
  \<open>Write\<close> through \<^verbatim>\<open>json.dumps\<close>, the other sends are done.
\<close>

fun statement :: "world \<Rightarrow> event \<Rightarrow> result" where
  "statement w (Print line) = py_print w line"
| "statement w (Write v) =
     (case dumps_raises w v of
        None \<Rightarrow> emit (Write v)
      | Some e \<Rightarrow> py_raise e)"
| "statement w ev = emit ev"

definition perform :: "world \<Rightarrow> event list \<Rightarrow> result" where
  "perform w evs = block (map (statement w) evs)"

section \<open>The fault-injection server\<close>

record handler =
  fail_rate :: pyfloat
  delay_ms :: int
  request_count :: int

definition failure_types :: "(nat \<times> string) list" where
  "failure_types =
     [(500, ''Internal Server Error''),
      (503, ''Service Unavailable''),
      (502, ''Bad Gateway''),
      (504, ''Gateway Timeout'')]"

text \<open>Lines 37-38: read and decode the request body.\<close>

definition read_request_body :: "request \<Rightarrow> py_exn + string" where
  "read_request_body r =
     (case content_length r of
        Inl e \<Rightarrow> Inl e
      | Inr n \<Rightarrow>
          (case rfile_read r of
             Inl e \<Rightarrow> Inl e
           | Inr bs \<Rightarrow> decode_utf8 r))"

text \<open>Lines 41-45: the inner \<^verbatim>\<open>try\<close>, which catches \<^verbatim>\<open>json.JSONDecodeError\<close> only.\<close>

definition parse_message_id :: "request \<Rightarrow> py_exn + json" where
  "parse_message_id r =
     (case (case json_loads r of
              Inl e \<Rightarrow> Inl e
            | Inr message_data \<Rightarrow> py_get message_data ''messageId'' (JStr ''unknown'')) of
        Inl e \<Rightarrow> if exn_class e = JSONDecodeError then Inr (JStr ''unknown'') else Inl e
      | Inr message_id \<Rightarrow> Inr message_id)"

text \<open>Line 47: the \<^verbatim>\<open>[:-3]\<close> slice drops the last three characters.\<close>

definition timestamp_now :: "world \<Rightarrow> string" where
  "timestamp_now w = take (length (strftime_now w) - 3) (strftime_now w)"

text \<open>Line 33.\<close>

definition should_fail :: "handler \<Rightarrow> world \<Rightarrow> bool" where
  "should_fail self w = float_lt (Finite (random_random w)) (fail_rate self)"

text \<open>Line 59.\<close>

definition failure_line :: "handler \<Rightarrow> string \<Rightarrow> json \<Rightarrow> nat \<times> string \<Rightarrow> fpart list" where
  "failure_line self timestamp message_id failure =
     (case failure of (status_code, status_message) \<Rightarrow>
        [Lit ''['', Val (JStr timestamp), Lit ''] FAILURE '',
         Val (JInt (request_count self)), Lit '': '', Val (JInt (int status_code)),
         Lit '' '', Val (JStr status_message), Lit '' for message '', Msg message_id])"

text \<open>Lines 59-72, the statements of the failure branch.\<close>

definition failure_response :: "handler \<Rightarrow> string \<Rightarrow> json \<Rightarrow> nat \<times> string \<Rightarrow> event list" where
  "failure_response self timestamp message_id failure =
     (case failure of (status_code, status_message) \<Rightarrow>
        [Print (failure_line self timestamp message_id failure),
         SendResponse status_code,
         SendHeader ''Content-Type'' ''application/json'',
         EndHeaders,
         Write (JDict [(''error'', JStr status_message),
                       (''timestamp'', JStr timestamp),
                       (''messageId'', message_id),
                       (''requestCount'', JInt (request_count self))])])"

text \<open>Line 76.\<close>

definition success_line :: "handler \<Rightarrow> string \<Rightarrow> json \<Rightarrow> fpart list" where
  "success_line self timestamp message_id =
     [Lit ''['', Val (JStr timestamp), Lit ''] SUCCESS '',
      Val (JInt (request_count self)), Lit '': Message '', Msg message_id,
      Lit '' processed successfully'']"

text \<open>Lines 76-90, the statements of the success branch.\<close>

definition success_response :: "handler \<Rightarrow> string \<Rightarrow> json \<Rightarrow> event list" where
  "success_response self timestamp message_id =
     [Print (success_line self timestamp message_id),
      SendResponse 200,
      SendHeader ''Content-Type'' ''application/json'',
      EndHeaders,
      Write (JDict [(''status'', JStr ''success''),
                    (''timestamp'', JStr timestamp),
                    (''messageId'', message_id),
                    (''requestCount'', JInt (request_count self)),
                    (''message'', JStr ''Message processed successfully'')])]"

text \<open>
  Lines 35-90, the body of the outer \<^verbatim>\<open>try\<close>. Besides what it did, it returns the local
  variable \<^verbatim>\<open>timestamp\<close> as it stands when the block is left: unbound (\<open>None\<close>) until
  line 47 has run. The branch taken starts with its \<^verbatim>\<open>print\<close>; if that raises, nothing
  of the response has been sent.
\<close>

definition try_block :: "handler \<Rightarrow> world \<Rightarrow> request \<Rightarrow> bool \<Rightarrow> string option \<times> result" where
  "try_block self w r should_fail_now =
     (case read_request_body r of
        Inl e \<Rightarrow> (None, \<lparr>events = [], raised = Some e\<rparr>)
      | Inr request_body \<Rightarrow>
          (case parse_message_id r of
             Inl e \<Rightarrow> (None, \<lparr>events = [], raised = Some e\<rparr>)
           | Inr message_id \<Rightarrow>
               (let timestamp = timestamp_now w in
                (Some timestamp,
                 perform w
                   (if should_fail_now
                    then failure_response self timestamp message_id
                           (failure_types ! random_choice w)
                    else success_response self timestamp message_id)))))"

text \<open>
  Lines 92-104, the handler of \<^verbatim>\<open>except Exception as e\<close>. Its first statement reads
  \<^verbatim>\<open>timestamp\<close>; on an unbound local Python raises \<^verbatim>\<open>UnboundLocalError\<close> there. The
  text of the exception may quote the request, so it is printed as a value from it.
\<close>

definition except_block :: "handler \<Rightarrow> world \<Rightarrow> string option \<Rightarrow> py_exn \<Rightarrow> result" where
  "except_block self w timestamp_var e =
     (case timestamp_var of
        None \<Rightarrow>
          \<lparr>events = [],
           raised = Some (PyExn UnboundLocalError
             ''cannot access local variable 'timestamp' where it is not associated with a value'')\<rparr>
      | Some timestamp \<Rightarrow>
          perform w
            [Print [Lit ''['', Val (JStr timestamp), Lit ''] ERROR '',
                    Val (JInt (request_count self)),
                    Lit '': Exception processing request: '', Msg (JStr (exn_str e))],
             SendResponse 500,
             SendHeader ''Content-Type'' ''application/json'',
             EndHeaders,
             Write (JDict [(''error'', JStr (''Server exception: '' @ exn_str e)),
                           (''timestamp'', JStr timestamp),
                           (''requestCount'', JInt (request_count self))])])"

text \<open>Lines 25-104. The handler object is returned as the call leaves it.\<close>

definition TransactionTestHandler_do_POST ::
  "handler \<Rightarrow> world \<Rightarrow> request \<Rightarrow> handler \<times> result" where
  "TransactionTestHandler_do_POST self0 w r =
     (let self = self0\<lparr>request_count := request_count self0 + 1\<rparr>;
          slept = (if delay_ms self > 0 then [Sleep (of_int (delay_ms self) / 1000)] else []);
          should_fail_now = should_fail self w
      in case try_block self w r should_fail_now of
           (timestamp_var, res) \<Rightarrow>
             (case raised res of
                None \<Rightarrow> (self, \<lparr>events = slept @ events res, raised = None\<rparr>)
              | Some e \<Rightarrow>
                  (let h = except_block self w timestamp_var e in
                   (self, \<lparr>events = slept @ events res @ events h, raised = raised h\<rparr>))))"

text \<open>Lines 106-108.\<close>

definition TransactionTestHandler_do_PUT ::
  "handler \<Rightarrow> world \<Rightarrow> request \<Rightarrow> handler \<times> result" where
  "TransactionTestHandler_do_PUT self w r = TransactionTestHandler_do_POST self w r"

text \<open>
  A connection carries one request (the handlers keep the library's HTTP/1.0 default, which
  closes the connection after each response). The library dispatches on the request's
  command to the method \<^verbatim>\<open>do_\<close>\<open>command\<close>; the two commands the scripts define are
  modelled.
\<close>

datatype command = POST | PUT

type_synonym connection = "command \<times> world \<times> request"

text \<open>
  Lines 19-23: the constructor stores the configuration, sets the counter to 0 and calls
  the library constructor, which handles the connection's request before it returns.
\<close>

definition TransactionTestHandler :: "pyfloat \<Rightarrow> int \<Rightarrow> connection \<Rightarrow> result" where
  "TransactionTestHandler fail_rate_arg delay_ms_arg conn =
     (let self = \<lparr>fail_rate = fail_rate_arg, delay_ms = delay_ms_arg, request_count = 0\<rparr>
      in case conn of (cmd, w, r) \<Rightarrow>
           snd (case cmd of
                  POST \<Rightarrow> TransactionTestHandler_do_POST self w r
                | PUT \<Rightarrow> TransactionTestHandler_do_PUT self w r))"

text \<open>Lines 114-117.\<close>

definition create_handler :: "pyfloat \<Rightarrow> int \<Rightarrow> connection \<Rightarrow> result" where
  "create_handler fail_rate_arg delay_ms_arg =
     (\<lambda>conn. TransactionTestHandler fail_rate_arg delay_ms_arg conn)"

text \<open>
  \<^verbatim>\<open>httpd.serve_forever()\<close>: the library calls the handler factory once for each accepted
  connection, one after the other, and goes on to the next connection also when the
  handler raised.
\<close>

definition serve_forever :: "(connection \<Rightarrow> result) \<Rightarrow> connection list \<Rightarrow> result list" where
  "serve_forever handler_factory conns = map handler_factory conns"

text \<open>Lines 119-144: the parsed command line, the demo override, the validation.\<close>

record args =
  arg_port :: int
  arg_fail_rate :: pyfloat
  arg_delay_ms :: int
  arg_demo :: bool

datatype startup =
    SysExit int
  | HTTPServer int pyfloat int

definition apply_demo :: "args \<Rightarrow> args \<times> string list" where
  "apply_demo a =
     (if arg_demo a
      then (a\<lparr>arg_fail_rate := float_0_3, arg_delay_ms := 500\<rparr>,
            [''Demo mode: 30% failure rate, 500ms delay''])
      else (a, []))"

text \<open>
  \<open>main\<close> up to line 144: the lines printed, and either the exit status or the server
  constructed on the port with the handler's configuration. The banner printed after the
  server is bound is left out.
\<close>

definition main :: "args \<Rightarrow> string list \<times> startup" where
  "main a0 =
     (case apply_demo a0 of (a, out) \<Rightarrow>
        if \<not> (float_le float_0_0 (arg_fail_rate a) \<and> float_le (arg_fail_rate a) float_1_0)
        then (out @ [''Error: fail-rate must be between 0.0 and 1.0''], SysExit 1)
        else (out, HTTPServer (arg_port a) (arg_fail_rate a) (arg_delay_ms a)))"

text \<open>The process: \<open>main\<close>, then the connections served if the server was started.\<close>

definition run_process :: "args \<Rightarrow> connection list \<Rightarrow> result list" where
  "run_process a conns =
     (case snd (main a) of
        SysExit code \<Rightarrow> []
      | HTTPServer p fr d \<Rightarrow> serve_forever (create_handler fr d) conns)"

section \<open>The echo logger server\<close>

text \<open>Lines 24-27 and 37-39: \<^verbatim>\<open>print(f"<label>{message_data.get(<key>, 'N/A')}")\<close>.\<close>

definition print_field :: "world \<Rightarrow> string \<Rightarrow> json \<Rightarrow> string \<Rightarrow> result" where
  "print_field w label message_data key =
     (case py_get message_data key (JStr ''N/A'') of
        Inl e \<Rightarrow> py_raise e
      | Inr v \<Rightarrow> py_print w [Lit label, Msg v])"

text \<open>Lines 29-30.\<close>

definition print_correlation_id :: "world \<Rightarrow> json \<Rightarrow> result" where
  "print_correlation_id w message_data =
     (case py_get message_data ''correlationId'' JNull of
        Inl e \<Rightarrow> py_raise e
      | Inr c \<Rightarrow>
          if truthy c
          then (case py_getitem message_data ''correlationId'' of
                  Inl e \<Rightarrow> py_raise e
                | Inr v \<Rightarrow> py_print w [Lit ''Correlation ID: '', Msg v])
          else skip)"

text \<open>Lines 32-35.\<close>

definition print_properties :: "world \<Rightarrow> json \<Rightarrow> result" where
  "print_properties w message_data =
     (case py_get message_data ''properties'' JNull of
        Inl e \<Rightarrow> py_raise e
      | Inr p \<Rightarrow>
          if truthy p
          then block
            [py_print w [Lit ''Properties:''],
             (case py_getitem message_data ''properties'' of
                Inl e \<Rightarrow> py_raise e
              | Inr props \<Rightarrow>
                  (case py_items props of
                     Inl e \<Rightarrow> py_raise e
                   | Inr kvs \<Rightarrow>
                       perform w
                         (map (\<lambda>(key, value).
                                 Print [Lit ''  '', Msg (JStr key), Lit '': '', Msg value])
                            kvs)))]
          else skip)"

text \<open>Lines 21-54: the parsed message is logged and acknowledged.\<close>

definition log_and_acknowledge :: "world \<Rightarrow> json \<Rightarrow> result" where
  "log_and_acknowledge w message_data =
     block
       [py_print w [Lit [CHR 0x0A], Val (JStr (replicate 50 (CHR ''='')))],
        py_print w [Lit ''HTTP Callback Received at '', Val (JStr (datetime_now w))],
        py_print w [Val (JStr (replicate 50 (CHR ''='')))],
        print_field w ''Message ID: '' message_data ''messageId'',
        print_field w ''Message Type: '' message_data ''messageType'',
        print_field w ''Content Type: '' message_data ''contentType'',
        print_field w ''Content: '' message_data ''content'',
        print_correlation_id w message_data,
        print_properties w message_data,
        print_field w ''JMS Timestamp: '' message_data ''jmsTimestamp'',
        print_field w ''Priority: '' message_data ''priority'',
        print_field w ''Delivery Mode: '' message_data ''deliveryMode'',
        py_print w [Val (JStr (replicate 50 (CHR ''='')))],
        emit (SendResponse 200),
        emit (SendHeader ''Content-type'' ''application/json''),
        emit EndHeaders,
        (case py_get message_data ''messageId'' JNull of
           Inl e \<Rightarrow> py_raise e
         | Inr message_id \<Rightarrow>
             statement w
               (Write (JDict [(''status'', JStr ''success''),
                              (''message'', JStr ''Message processed successfully''),
                              (''messageId'', message_id),
                              (''timestamp'', JInt (epoch_millis w))])))]"

text \<open>
  Lines 17-58: the inner \<^verbatim>\<open>try\<close>, which catches \<^verbatim>\<open>json.JSONDecodeError\<close> only. The text
  of a \<^verbatim>\<open>JSONDecodeError\<close> is one of the decoder's own messages with a line, a column
  and a position, all ASCII.
\<close>

definition inner_try :: "world \<Rightarrow> request \<Rightarrow> result" where
  "inner_try w r =
     (let body = (case decode_utf8 r of
                    Inl e \<Rightarrow> py_raise e
                  | Inr text \<Rightarrow>
                      (case json_loads r of
                         Inl e \<Rightarrow> py_raise e
                       | Inr message_data \<Rightarrow> log_and_acknowledge w message_data))
      in case raised body of
           None \<Rightarrow> body
         | Some e \<Rightarrow>
             if exn_class e = JSONDecodeError
             then (let h = perform w
                             [Print [Lit ''ERROR: Invalid JSON received: '',
                                     Val (JStr (exn_str e))],
                              SendError 400 ''Invalid JSON'']
                   in \<lparr>events = events body @ events h, raised = raised h\<rparr>)
             else body)"

text \<open>
  Lines 8-62: the outer \<^verbatim>\<open>try\<close> catches every \<^verbatim>\<open>Exception\<close>. The text of the
  exception may quote the request, so it is printed as a value from it.
\<close>

definition JMSMessageHandler_do_POST :: "world \<Rightarrow> request \<Rightarrow> result" where
  "JMSMessageHandler_do_POST w r =
     (let body = (case content_length r of
                    Inl e \<Rightarrow> py_raise e
                  | Inr n \<Rightarrow>
                      (case rfile_read r of
                         Inl e \<Rightarrow> py_raise e
                       | Inr post_data \<Rightarrow> inner_try w r))
      in case raised body of
           None \<Rightarrow> body
         | Some e \<Rightarrow>
             (let h = perform w
                        [Print [Lit ''ERROR: Exception processing request: '',
                                Msg (JStr (exn_str e))],
                         SendError 500 ''Internal server error'']
              in \<lparr>events = events body @ events h, raised = raised h\<rparr>))"

text \<open>Lines 64-66.\<close>

definition JMSMessageHandler_do_PUT :: "world \<Rightarrow> request \<Rightarrow> result" where
  "JMSMessageHandler_do_PUT w r = JMSMessageHandler_do_POST w r"

text \<open>The handler class, constructed by the library for each connection.\<close>

definition JMSMessageHandler :: "connection \<Rightarrow> result" where
  "JMSMessageHandler conn =
     (case conn of (cmd, w, r) \<Rightarrow>
        (case cmd of
           POST \<Rightarrow> JMSMessageHandler_do_POST w r
         | PUT \<Rightarrow> JMSMessageHandler_do_PUT w r))"

text \<open>Lines 72-87.\<close>

definition run_test_server :: "connection list \<Rightarrow> result list" where
  "run_test_server conns = serve_forever JMSMessageHandler conns"

section \<open>Example requests\<close>

text \<open>
  A UTF-8 console: the lines of the examples it cannot write are those that interpolate a
  str with the lone surrogate U+D800. The text of the exception names the position of the
  character in the line.
\<close>

definition surrogate_d800 :: string where
  "surrogate_d800 = [CHR 0xED, CHR 0xA0, CHR 0x80]"

definition surrogate_error :: "string \<Rightarrow> py_exn" where
  "surrogate_error position =
     PyExn UnicodeEncodeError
       (quoted ''utf-8'' @ '' codec can't encode character '' @ quoted (CHR 0x5C # ''ud800'') @
        '' in position '' @ position @ '': surrogates not allowed'')"

definition utf8_stdout :: "string \<Rightarrow> fpart list \<Rightarrow> py_exn option" where
  "utf8_stdout position line =
     (if Msg (JStr surrogate_d800) \<in> set line then Some (surrogate_error position) else None)"

text \<open>
  A clock, random source and console: the draw is 1/2, \<^verbatim>\<open>random.choice\<close> picks index 1,
  \<^verbatim>\<open>json.dumps\<close> serialises every response of the examples.
  In the line of the fault-injection server the message id stands at position 45, in the
  \<^verbatim>\<open>Message ID\<close> line of the echo server at position 12.
\<close>

definition world0 :: world where
  "world0 =
     \<lparr>random_random = 1 / 2,
      random_choice = 1,
      strftime_now = ''2024-05-01 12:00:00.123456'',
      datetime_now = ''2024-05-01 12:00:00.123456'',
      epoch_millis = 1714564800123,
      stdout_write = utf8_stdout ''45'',
      json_dumps = (\<lambda>v. None)\<rparr>"


text \<open>The body \<^verbatim>\<open>{"messageId": "m1"}\<close>.\<close>

definition req_m1 :: request where
  "req_m1 =
     \<lparr>content_length = Inr 19,
      rfile_read = Inr [0x7B, 0x22, 0x6D, 0x65, 0x73, 0x73, 0x61, 0x67, 0x65, 0x49, 0x64,
                        0x22, 0x3A, 0x20, 0x22, 0x6D, 0x31, 0x22, 0x7D],
      decode_utf8 = Inr ''{\"messageId\": \"m1\"}'',
      json_loads = Inr (JDict [(''messageId'', JStr ''m1'')])\<rparr>"

text \<open>
  The 23 ASCII bytes \<^verbatim>\<open>{"messageId": "\ud800"}\<close>: the JSON escape of a lone surrogate,
  which \<^verbatim>\<open>json.loads\<close> turns into the one-character str U+D800.
\<close>

definition req_surrogate_id :: request where
  "req_surrogate_id =
     \<lparr>content_length = Inr 23,
      rfile_read = Inr [0x7B, 0x22, 0x6D, 0x65, 0x73, 0x73, 0x61, 0x67, 0x65, 0x49, 0x64,
                        0x22, 0x3A, 0x20, 0x22, 0x5C, 0x75, 0x64, 0x38, 0x30, 0x30, 0x22,
                        0x7D],
      decode_utf8 = Inr (''{\"messageId\": \"'' @ [CHR 0x5C] @ ''ud800\"}''),
      json_loads = Inr (JDict [(''messageId'', JStr surrogate_d800)])\<rparr>"

text \<open>The malformed body \<^verbatim>\<open>{bad json\<close>.\<close>

definition req_bad_json :: request where
  "req_bad_json =
     \<lparr>content_length = Inr 9,
      rfile_read = Inr [0x7B, 0x62, 0x61, 0x64, 0x20, 0x6A, 0x73, 0x6F, 0x6E],
      decode_utf8 = Inr ''{bad json'',
      json_loads = Inl (PyExn JSONDecodeError
        ''Expecting property name enclosed in double quotes: line 1 column 2 (char 1)'')\<rparr>"

text \<open>The body \<^verbatim>\<open>[1]\<close>: valid JSON, but a list and not an object.\<close>

definition req_list :: request where
  "req_list =
     \<lparr>content_length = Inr 3,
      rfile_read = Inr [0x5B, 0x31, 0x5D],
      decode_utf8 = Inr ''[1]'',
      json_loads = Inr (JList [JInt 1])\<rparr>"






text \<open>A connection that breaks while the body is read.\<close>

definition connection_reset :: py_exn where
  "connection_reset = PyExn OSError ''[Errno 104] Connection reset by peer''"

definition req_read_error :: request where
  "req_read_error =
     \<lparr>content_length = Inr 19,
      rfile_read = Inl connection_reset,
      decode_utf8 = Inl connection_reset,
      json_loads = Inl connection_reset\<rparr>"


text \<open>Handler objects with fail rate 0.0 and 1.0, and three command lines.\<close>

definition handler0 :: handler where
  "handler0 = \<lparr>fail_rate = float_0_0, delay_ms = 0, request_count = 0\<rparr>"

definition handler1 :: handler where
  "handler1 = \<lparr>fail_rate = float_1_0, delay_ms = 0, request_count = 0\<rparr>"

definition args_default :: args where
  "args_default =
     \<lparr>arg_port = 8080, arg_fail_rate = float_0_0, arg_delay_ms = 0, arg_demo = False\<rparr>"

definition args_fail_rate_1_5 :: args where
  "args_fail_rate_1_5 =
     \<lparr>arg_port = 8080, arg_fail_rate = Finite (3 / 2), arg_delay_ms = 0, arg_demo = False\<rparr>"

definition args_demo_1_5 :: args where
  "args_demo_1_5 =
     \<lparr>arg_port = 9090, arg_fail_rate = Finite (3 / 2), arg_delay_ms = 7, arg_demo = True\<rparr>"

section \<open>Notions the properties are stated with\<close>

text \<open>The handler object after line 26, and what line 29-30 does.\<close>

definition counted :: "handler \<Rightarrow> handler" where
  "counted self = self\<lparr>request_count := request_count self + 1\<rparr>"

definition slept :: "handler \<Rightarrow> event list" where
  "slept self = (if delay_ms self > 0 then [Sleep (of_int (delay_ms self) / 1000)] else [])"

text \<open>
  The line the fault-injection server logs for a request with the given message id: the
  failure line with the failure type drawn if the draw is below the fail rate, the success
  line otherwise.
\<close>

definition designated_line :: "handler \<Rightarrow> world \<Rightarrow> json \<Rightarrow> fpart list" where
  "designated_line self w message_id =
     (if should_fail self w
      then failure_line (counted self) (timestamp_now w) message_id
             (failure_types ! random_choice w)
      else success_line (counted self) (timestamp_now w) message_id)"

text \<open>A JSON body that is sent reports the request count 1.\<close>

fun counts_one :: "event \<Rightarrow> bool" where
  "counts_one (Write (JDict kvs)) = (map_of kvs ''requestCount'' = Some (JInt 1))"
| "counts_one (Write v) = False"
| "counts_one ev = True"

text \<open>The console writes the line: \<^verbatim>\<open>print\<close> of it does not raise.\<close>

definition written :: "world \<Rightarrow> fpart list \<Rightarrow> bool" where
  "written w line = (print_raises w line = None)"


text \<open>A fail rate inside the interval from 0.0 to 1.0; NaN and the infinities are outside.\<close>

definition in_unit_interval :: "pyfloat \<Rightarrow> bool" where
  "in_unit_interval f = (case f of Finite q \<Rightarrow> 0 \<le> q \<and> q \<le> 1 | _ \<Rightarrow> False)"

text \<open>The arguments after the demo override.\<close>

definition resolved :: "args \<Rightarrow> args" where
  "resolved a = fst (apply_demo a)"









section \<open>The fault-injection server: one request\<close>

lemma print_raises_safe: "list_all console_safe line \<Longrightarrow> print_raises w line = None"
  by (simp add: print_raises_def)

lemma success_line_safe: "plain_ascii m \<Longrightarrow> print_raises w (success_line self ts m) = None"
  by (simp add: print_raises_def success_line_def)

lemma failure_line_safe: "plain_ascii m \<Longrightarrow> print_raises w (failure_line self ts m f) = None"
  by (cases f) (simp add: print_raises_def failure_line_def)

lemma designated_line_safe: "plain_ascii m \<Longrightarrow> print_raises w (designated_line self w m) = None"
  by (simp add: designated_line_def success_line_safe failure_line_safe)

lemma perform_success_ok:
  assumes "print_raises w (success_line self ts m) = None" and "scalar m"
  shows "perform w (success_response self ts m) =
           \<lparr>events = success_response self ts m, raised = None\<rparr>"
  using assms
  by (simp add: perform_def success_response_def py_print_def emit_def skip_def Let_def
      dumps_raises_def)

lemma perform_failure_ok:
  assumes "print_raises w (failure_line self ts m f) = None" and "scalar m"
  shows "perform w (failure_response self ts m f) =
           \<lparr>events = failure_response self ts m f, raised = None\<rparr>"
  using assms
  by (cases f)
    (simp add: perform_def failure_response_def py_print_def emit_def skip_def Let_def
      dumps_raises_def)

text \<open>
  Once the line is written the status line is sent, whatever \<^verbatim>\<open>json.dumps\<close> does with
  the body afterwards.
\<close>

lemma status_of_append: "status_of evs = Some c \<Longrightarrow> status_of (evs @ evs') = Some c"
  by (induction evs rule: status_of.induct) simp_all

lemma perform_success_status:
  assumes "print_raises w (success_line self ts m) = None"
  shows "status_of (events (perform w (success_response self ts m))) = Some 200"
  using assms
  by (simp add: perform_def success_response_def py_print_def emit_def skip_def Let_def
      py_raise_def split: option.splits)

lemma perform_failure_status:
  assumes "print_raises w (failure_line self ts m f) = None"
  shows "status_of (events (perform w (failure_response self ts m f))) = Some (fst f)"
  using assms
  by (cases f)
    (simp add: perform_def failure_response_def py_print_def emit_def skip_def Let_def
      py_raise_def split: option.splits)

lemma perform_success_raises:
  assumes "print_raises w (success_line self ts m) = Some e"
  shows "perform w (success_response self ts m) = \<lparr>events = [], raised = Some e\<rparr>"
  using assms
  by (simp add: perform_def success_response_def py_print_def py_raise_def)

lemma perform_failure_raises:
  assumes "print_raises w (failure_line self ts m f) = Some e"
  shows "perform w (failure_response self ts m f) = \<lparr>events = [], raised = Some e\<rparr>"
  using assms
  by (cases f) (simp add: perform_def failure_response_def py_print_def py_raise_def)

lemma should_fail_counted: "should_fail (self\<lparr>request_count := c\<rparr>) w = should_fail self w"
  by (simp add: should_fail_def)

text \<open>
  A request whose body is read, whose message id is extracted and is not a list or dict,
  and whose line is written gets the designated response.
\<close>

lemma do_POST_ok:
  assumes "read_request_body r = Inr b" and "parse_message_id r = Inr m"
    and "print_raises w (designated_line self w m) = None" and "scalar m"
  shows "TransactionTestHandler_do_POST self w r =
           (counted self,
            \<lparr>events = slept self @
               (if should_fail self w
                then failure_response (counted self) (timestamp_now w) m
                       (failure_types ! random_choice w)
                else success_response (counted self) (timestamp_now w) m),
             raised = None\<rparr>)"
proof (cases "should_fail self w")
  case True
  with assms(3) have "print_raises w (failure_line (counted self) (timestamp_now w) m
                        (failure_types ! random_choice w)) = None"
    by (simp add: designated_line_def)
  from perform_failure_ok[OF this assms(4)] True assms(1,2) show ?thesis
    by (simp add: TransactionTestHandler_do_POST_def Let_def try_block_def counted_def slept_def
        should_fail_counted)
next
  case False
  with assms(3) have "print_raises w (success_line (counted self) (timestamp_now w) m) = None"
    by (simp add: designated_line_def)
  from perform_success_ok[OF this assms(4)] False assms(1,2) show ?thesis
    by (simp add: TransactionTestHandler_do_POST_def Let_def try_block_def counted_def slept_def
        should_fail_counted)
qed

text \<open>
  A request whose body is read, whose message id is extracted and whose line is written
  is answered with the designated status.
\<close>

lemma do_POST_status:
  assumes "read_request_body r = Inr b" and "parse_message_id r = Inr m"
    and "print_raises w (designated_line self w m) = None"
  shows "status_of (events (snd (TransactionTestHandler_do_POST self w r))) =
           (if should_fail self w then Some (fst (failure_types ! random_choice w))
            else Some 200)"
proof -
  define res where "res = perform w
     (if should_fail self w
      then failure_response (counted self) (timestamp_now w) m (failure_types ! random_choice w)
      else success_response (counted self) (timestamp_now w) m)"
  have st: "status_of (events res) =
              (if should_fail self w then Some (fst (failure_types ! random_choice w))
               else Some 200)"
    using assms(3)
    by (cases "should_fail self w")
      (simp_all add: res_def designated_line_def perform_success_status
        perform_failure_status)
  have tb: "try_block (counted self) w r (should_fail self w) = (Some (timestamp_now w), res)"
    using assms(1,2) by (simp add: try_block_def Let_def res_def)
  have "\<exists>tl. events (snd (TransactionTestHandler_do_POST self w r)) = slept self @ events res @ tl"
    using tb[unfolded counted_def]
    by (simp add: TransactionTestHandler_do_POST_def Let_def should_fail_counted slept_def
        split: option.splits)
  then obtain tl where "events (snd (TransactionTestHandler_do_POST self w r))
                          = slept self @ events res @ tl"
    by blast
  then show ?thesis
    using st by (cases "should_fail self w") (simp_all add: status_of_append slept_def)
qed

text \<open>
  Whatever is raised while the body is read or the message id extracted reaches the
  handler of line 92 with \<^verbatim>\<open>timestamp\<close> unbound: nothing is printed or sent and
  \<^verbatim>\<open>UnboundLocalError\<close> leaves \<^verbatim>\<open>do_POST\<close>.
\<close>

lemma try_block_raises:
  assumes "read_request_body r = Inl e \<or>
           (\<exists>b. read_request_body r = Inr b \<and> parse_message_id r = Inl e)"
  shows "try_block self w r sf = (None, \<lparr>events = [], raised = Some e\<rparr>)"
  using assms by (auto simp add: try_block_def)

lemma do_POST_raises:
  assumes "read_request_body r = Inl e \<or>
           (\<exists>b. read_request_body r = Inr b \<and> parse_message_id r = Inl e)"
  shows "\<exists>msg. snd (TransactionTestHandler_do_POST self w r) =
           \<lparr>events = slept self, raised = Some (PyExn UnboundLocalError msg)\<rparr>"
  using try_block_raises[OF assms]
  by (simp add: TransactionTestHandler_do_POST_def Let_def except_block_def slept_def)

text \<open>
  When the \<^verbatim>\<open>print\<close> of the designated line raises, \<^verbatim>\<open>timestamp\<close> is bound and the
  handler of line 92 runs.
\<close>

lemma do_POST_print_raises:
  assumes "read_request_body r = Inr b" and "parse_message_id r = Inr m"
    and "print_raises w (designated_line self w m) = Some e"
  shows "snd (TransactionTestHandler_do_POST self w r) =
           \<lparr>events = slept self @ events (except_block (counted self) w (Some (timestamp_now w)) e),
            raised = raised (except_block (counted self) w (Some (timestamp_now w)) e)\<rparr>"
proof (cases "should_fail self w")
  case True
  with assms(3) have "print_raises w (failure_line (counted self) (timestamp_now w) m
                        (failure_types ! random_choice w)) = Some e"
    by (simp add: designated_line_def)
  from perform_failure_raises[OF this] True assms(1,2) show ?thesis
    by (simp add: TransactionTestHandler_do_POST_def Let_def try_block_def counted_def slept_def
        should_fail_counted)
next
  case False
  with assms(3) have "print_raises w (success_line (counted self) (timestamp_now w) m) = Some e"
    by (simp add: designated_line_def)
  from perform_success_raises[OF this] False assms(1,2) show ?thesis
    by (simp add: TransactionTestHandler_do_POST_def Let_def try_block_def counted_def slept_def
        should_fail_counted)
qed

lemma except_block_bound:
  "except_block self w (Some ts) e =
     (case print_raises w [Lit ''['', Val (JStr ts), Lit ''] ERROR '',
                    Val (JInt (request_count self)),
                    Lit '': Exception processing request: '', Msg (JStr (exn_str e))] of
        Some e' \<Rightarrow> \<lparr>events = [], raised = Some e'\<rparr>
      | None \<Rightarrow>
         \<lparr>events = [Print [Lit ''['', Val (JStr ts), Lit ''] ERROR '',
                    Val (JInt (request_count self)),
                    Lit '': Exception processing request: '', Msg (JStr (exn_str e))],
             SendResponse 500,
             SendHeader ''Content-Type'' ''application/json'',
             EndHeaders,
             Write (JDict [(''error'', JStr (''Server exception: '' @ exn_str e)),
                           (''timestamp'', JStr ts),
                           (''requestCount'', JInt (request_count self))])],
          raised = None\<rparr>)"
  by (simp add: except_block_def perform_def py_print_def emit_def py_raise_def skip_def Let_def
      dumps_raises_def split: option.splits)

lemma request_count_increment:
  "request_count (fst (TransactionTestHandler_do_POST self w r)) = request_count self + 1"
  by (simp add: TransactionTestHandler_do_POST_def Let_def split: prod.splits option.splits)

lemma status_of_slept [simp]: "status_of (slept self @ evs) = status_of evs"
  by (simp add: slept_def)

lemma body_of_slept [simp]: "body_of (slept self @ evs) = body_of evs"
  by (simp add: slept_def)

lemma status_of_failure_response [simp]:
  "status_of (failure_response self ts m f) = Some (fst f)"
  by (cases f) (simp add: failure_response_def)

lemma status_of_success_response [simp]:
  "status_of (success_response self ts m) = Some 200"
  by (simp add: success_response_def)

lemma body_of_failure_response [simp]:
  "body_of (failure_response self ts m f) =
     Some (JDict [(''error'', JStr (snd f)), (''timestamp'', JStr ts), (''messageId'', m),
                  (''requestCount'', JInt (request_count self))])"
  by (cases f) (simp add: failure_response_def)

lemma body_of_success_response [simp]:
  "body_of (success_response self ts m) =
     Some (JDict [(''status'', JStr ''success''), (''timestamp'', JStr ts), (''messageId'', m),
                  (''requestCount'', JInt (request_count self)),
                  (''message'', JStr ''Message processed successfully'')])"
  by (simp add: success_response_def)


lemma read_m1: "read_request_body req_m1 = Inr ''{\"messageId\": \"m1\"}''"
  by (simp add: read_request_body_def req_m1_def)

lemma parse_m1: "parse_message_id req_m1 = Inr (JStr ''m1'')"
  by (simp add: parse_message_id_def req_m1_def)

lemma read_bad_json: "read_request_body req_bad_json = Inr ''{bad json''"
  by (simp add: read_request_body_def req_bad_json_def)

lemma parse_bad_json: "parse_message_id req_bad_json = Inr (JStr ''unknown'')"
  by (simp add: parse_message_id_def req_bad_json_def)

lemma read_list: "read_request_body req_list = Inr ''[1]''"
  by (simp add: read_request_body_def req_list_def)

lemma parse_list: "parse_message_id req_list = Inl (attribute_error (JList [JInt 1]) ''get'')"
  by (simp add: parse_message_id_def req_list_def attribute_error_def)

lemma do_POST_list:
  "snd (TransactionTestHandler_do_POST self w req_list) =
     \<lparr>events = slept self,
      raised = Some (PyExn UnboundLocalError
         ''cannot access local variable 'timestamp' where it is not associated with a value'')\<rparr>"
  by (simp add: TransactionTestHandler_do_POST_def Let_def try_block_def except_block_def
      read_list parse_list slept_def)

lemma read_surrogate_id:
  "read_request_body req_surrogate_id = Inr (''{\"messageId\": \"'' @ [CHR 0x5C] @ ''ud800\"}'')"
  by (simp add: read_request_body_def req_surrogate_id_def)

lemma parse_surrogate_id: "parse_message_id req_surrogate_id = Inr (JStr surrogate_d800)"
  by (simp add: parse_message_id_def req_surrogate_id_def)

lemma plain_ascii_m1: "plain_ascii (JStr ''m1'')"
  by (simp add: ascii_text_def)

lemma plain_ascii_unknown: "plain_ascii (JStr ''unknown'')"
  by (simp add: ascii_text_def)

lemma scalar_m1: "scalar (JStr ''m1'')"
  by simp


section \<open>The request counter\<close>

text \<open>
  C1. The claim: on one running instance of the fault-injection server the
  \<^verbatim>\<open>requestCount\<close> of the responses goes 1, 2, 3, ... over sequential requests and is
  never reset. The code: the counter is a field of the handler object, which the
  constructor sets to 0 (line 22), and the library constructs a new handler object for
  every connection through the factory of \<open>create_handler\<close>. Three sequential requests
  to the server started with the default arguments all report \<^verbatim>\<open>requestCount\<close> 1.
\<close>

theorem requestCount_restarts_at_one:
  "map (\<lambda>res. body_field (events res) ''requestCount'')
       (run_process args_default
          [(POST, world0, req_m1), (POST, world0, req_m1), (PUT, world0, req_m1)])
   = [Some (JInt 1), Some (JInt 1), Some (JInt 1)]"
  by (simp add: run_process_def main_def apply_demo_def args_default_def float_0_0_def
      float_1_0_def serve_forever_def create_handler_def TransactionTestHandler_def
      TransactionTestHandler_do_PUT_def
      do_POST_ok[OF read_m1 parse_m1 designated_line_safe[OF plain_ascii_m1] scalar_m1]
      body_field_def
      counted_def Let_def should_fail_def)

text \<open>
  The same for every configuration and every connection: a response that carries a
  \<^verbatim>\<open>requestCount\<close> carries 1.
\<close>

lemma body_field_counts_one:
  "list_all counts_one evs \<Longrightarrow> body_field evs ''requestCount'' \<in> {None, Some (JInt 1)}"
proof (induction evs rule: body_of.induct)
  case (2 v evs)
  then show ?case by (cases v) (simp_all add: body_field_def)
qed (simp_all add: body_field_def)

lemma statement_events: "set (events (statement w ev)) \<subseteq> {ev}"
  by (cases ev) (simp_all add: py_print_def emit_def py_raise_def split: option.splits)

lemma perform_events: "set (events (perform w evs)) \<subseteq> set evs"
proof (induction evs)
  case Nil
  then show ?case by (simp add: perform_def skip_def)
next
  case (Cons ev evs)
  then show ?case
    using statement_events[of w ev]
    by (auto simp add: perform_def Let_def split: option.splits)
qed

lemma perform_counts_one:
  "list_all counts_one evs \<Longrightarrow> list_all counts_one (events (perform w evs))"
  using perform_events[of w evs] by (auto simp add: list_all_iff)

lemma try_block_counts_one:
  assumes "request_count self = 1"
  shows "list_all counts_one (events (snd (try_block self w r sf)))"
proof -
  obtain a b where f: "failure_types ! random_choice w = (a, b)"
    by (cases "failure_types ! random_choice w") auto
  have "list_all counts_one (failure_response self ts m (failure_types ! random_choice w))"
    and "list_all counts_one (success_response self ts m)" for ts m
    using assms by (simp_all add: f failure_response_def success_response_def)
  then show ?thesis
    by (simp add: try_block_def Let_def perform_counts_one split: sum.splits)
qed

lemma except_block_counts_one:
  assumes "request_count self = 1"
  shows "list_all counts_one (events (except_block self w tv e))"
  using assms
  by (cases tv) (simp_all add: except_block_def perform_counts_one)

lemma do_POST_counts_one:
  assumes "request_count self = 0"
  shows "list_all counts_one (events (snd (TransactionTestHandler_do_POST self w r)))"
proof -
  define self' where "self' = self\<lparr>request_count := request_count self + 1\<rparr>"
  have c: "request_count self' = 1"
    using assms by (simp add: self'_def)
  obtain tv res where t: "try_block self' w r (should_fail self' w) = (tv, res)"
    by (cases "try_block self' w r (should_fail self' w)") auto
  have r: "list_all counts_one (events res)"
    using try_block_counts_one[OF c, of w r "should_fail self' w"] t by simp
  show ?thesis
    using r except_block_counts_one[OF c] t
    by (simp add: TransactionTestHandler_do_POST_def Let_def self'_def[symmetric]
        split: option.splits)
qed

lemma requestCount_one_or_absent:
  "body_field (events (TransactionTestHandler fr d conn)) ''requestCount''
     \<in> {None, Some (JInt 1)}"
proof -
  obtain cmd w r where conn: "conn = (cmd, w, r)"
    by (cases conn) auto
  define self where "self = \<lparr>fail_rate = fr, delay_ms = d, request_count = 0\<rparr>"
  have res: "TransactionTestHandler fr d conn = snd (TransactionTestHandler_do_POST self w r)"
    by (cases cmd)
      (simp_all add: conn TransactionTestHandler_def TransactionTestHandler_do_PUT_def self_def)
  have "request_count self = 0"
    by (simp add: self_def)
  from do_POST_counts_one[OF this] show ?thesis
    unfolding res by (rule body_field_counts_one)
qed

section \<open>Exceptions in the fault-injection server\<close>

text \<open>
  C2. The claim: every exception raised while a request is processed is caught, logged
  with an \<^verbatim>\<open>ERROR\<close> line and answered with HTTP 500 and the body
  \<^verbatim>\<open>{error: "Server exception: ...", timestamp, requestCount}\<close>, and the server goes on
  serving. The code: the handler of line 92 starts by formatting \<^verbatim>\<open>timestamp\<close>, which
  is assigned on line 47 only, after the body has been read and the message id extracted.
  For the body \<^verbatim>\<open>[1]\<close> (\<^verbatim>\<open>.get\<close> on a list raises \<^verbatim>\<open>AttributeError\<close>) and for a
  connection that is reset while the body is read, nothing is printed, nothing is sent and
  \<^verbatim>\<open>UnboundLocalError\<close> leaves \<^verbatim>\<open>do_POST\<close>; the next request is served.
\<close>

theorem exception_before_timestamp_escapes:
  "serve_forever (create_handler float_0_0 0)
     [(POST, world0, req_list), (POST, world0, req_read_error), (POST, world0, req_m1)]
   = [\<lparr>events = [],
       raised = Some (PyExn UnboundLocalError
         ''cannot access local variable 'timestamp' where it is not associated with a value'')\<rparr>,
      \<lparr>events = [],
       raised = Some (PyExn UnboundLocalError
         ''cannot access local variable 'timestamp' where it is not associated with a value'')\<rparr>,
      \<lparr>events = success_response \<lparr>fail_rate = float_0_0, delay_ms = 0, request_count = 1\<rparr>
                  ''2024-05-01 12:00:00.123'' (JStr ''m1''),
       raised = None\<rparr>]"
  by (simp add: serve_forever_def create_handler_def TransactionTestHandler_def
      TransactionTestHandler_do_POST_def Let_def try_block_def except_block_def
      read_request_body_def parse_message_id_def req_read_error_def req_m1_def req_list_def
      world0_def should_fail_def float_0_0_def timestamp_now_def connection_reset_def
      attribute_error_def perform_def py_print_def print_raises_def emit_def skip_def
      success_response_def success_line_def ascii_text_def dumps_raises_def)

section \<open>Bodies that are not JSON, fault-injection server\<close>




section \<open>The echo logger server\<close>


lemma py_print_Val [simp]:
  "py_print w [Lit a, Val v] = emit (Print [Lit a, Val v])"
  "py_print w [Val v] = emit (Print [Val v])"
  "py_print w [Lit a] = emit (Print [Lit a])"
  by (simp_all add: py_print_def print_raises_def)







lemma status_of_prints [simp]: "status_of (map Print ls @ evs) = status_of evs"
  by (induction ls) simp_all

lemma body_of_prints [simp]: "body_of (map Print ls @ evs) = body_of evs"
  by (induction ls) simp_all









section \<open>The failure designation\<close>

lemma designated_line_m1: "written w (designated_line self w (JStr ''m1''))"
  unfolding written_def by (rule designated_line_safe[OF plain_ascii_m1])

lemma designated_line_unknown: "written w (designated_line self w (JStr ''unknown''))"
  unfolding written_def by (rule designated_line_safe[OF plain_ascii_unknown])

text \<open>
  With fail rate 0.0 the body \<^verbatim>\<open>{"messageId": "\ud800"}\<close> is read, its message id is
  extracted, the \<^verbatim>\<open>print\<close> of line 76 raises \<^verbatim>\<open>UnicodeEncodeError\<close> on a UTF-8
  console, and the handler of line 92, with \<^verbatim>\<open>timestamp\<close> bound, answers HTTP 500.
\<close>

lemma do_POST_surrogate_id:
  "print_raises world0 (designated_line handler0 world0 (JStr surrogate_d800))
     = Some (surrogate_error ''45'') \<and>
   raised (snd (TransactionTestHandler_do_POST handler0 world0 req_surrogate_id)) = None \<and>
   status_of (events (snd (TransactionTestHandler_do_POST handler0 world0 req_surrogate_id)))
     = Some 500"
proof -
  have sf: "\<not> should_fail handler0 world0"
    by (simp add: should_fail_def handler0_def world0_def float_0_0_def)
  have pr: "print_raises world0 (designated_line handler0 world0 (JStr surrogate_d800))
              = Some (surrogate_error ''45'')"
    by (simp add: sf designated_line_def success_line_def print_raises_def ascii_text_def
        surrogate_d800_def)
      (simp add: world0_def utf8_stdout_def surrogate_d800_def)
  have ex: "except_block (counted handler0) world0 (Some (timestamp_now world0))
              (surrogate_error ''45'') =
            \<lparr>events = [Print [Lit ''['', Val (JStr (timestamp_now world0)), Lit ''] ERROR '',
                    Val (JInt (request_count (counted handler0))),
                    Lit '': Exception processing request: '',
                    Msg (JStr (exn_str (surrogate_error ''45'')))],
             SendResponse 500,
             SendHeader ''Content-Type'' ''application/json'',
             EndHeaders,
             Write (JDict [(''error'', JStr (''Server exception: '' @
                                             exn_str (surrogate_error ''45''))),
                           (''timestamp'', JStr (timestamp_now world0)),
                           (''requestCount'', JInt (request_count (counted handler0)))])],
             raised = None\<rparr>"
    by (simp add: except_block_bound print_raises_def surrogate_error_def quoted_def
        ascii_text_def)
  have sl: "slept handler0 = []"
    by (simp add: slept_def handler0_def)
  from do_POST_print_raises[OF read_surrogate_id parse_surrogate_id pr] pr show ?thesis
    by (simp add: ex sl)
qed




text \<open>
  C10, as amended. For any two requests whose bodies are both read, whose message ids are
  both extracted and whose log lines are both written without an exception, processed by
  the same handler object with the same draws: both get the same status, 200 if the draw
  is not below the fail rate and otherwise the status \<^verbatim>\<open>random.choice\<close> picks.
\<close>

theorem designation_independent_of_body:
  assumes "read_request_body r1 = Inr b1" and "parse_message_id r1 = Inr m1"
    and "written w (designated_line self w m1)"
    and "read_request_body r2 = Inr b2" and "parse_message_id r2 = Inr m2"
    and "written w (designated_line self w m2)"
  shows "status_of (events (snd (TransactionTestHandler_do_POST self w r1)))
           = status_of (events (snd (TransactionTestHandler_do_POST self w r2))) \<and>
         status_of (events (snd (TransactionTestHandler_do_POST self w r1)))
           = (if should_fail self w then Some (fst (failure_types ! random_choice w))
              else Some 200)"
proof -
  from assms(3,6) have "print_raises w (designated_line self w m1) = None"
    and "print_raises w (designated_line self w m2) = None"
    by (simp_all add: written_def)
  then show ?thesis
    by (simp add: do_POST_status[OF assms(1,2)] do_POST_status[OF assms(4,5)])
qed

text \<open>
  The theorem at the bodies \<^verbatim>\<open>{"messageId": "m1"}\<close> and \<^verbatim>\<open>{bad json\<close>, with fail rate
  1.0: both fail with 503.
\<close>

theorem designation_independent_of_body_witness:
  "read_request_body req_m1 = Inr ''{\"messageId\": \"m1\"}'' \<and>
   parse_message_id req_m1 = Inr (JStr ''m1'') \<and>
   written world0 (designated_line handler1 world0 (JStr ''m1'')) \<and>
   read_request_body req_bad_json = Inr ''{bad json'' \<and>
   parse_message_id req_bad_json = Inr (JStr ''unknown'') \<and>
   written world0 (designated_line handler1 world0 (JStr ''unknown'')) \<and>
   status_of (events (snd (TransactionTestHandler_do_POST handler1 world0 req_m1))) = Some 503 \<and>
   status_of (events (snd (TransactionTestHandler_do_POST handler1 world0 req_bad_json)))
     = Some 503"
proof -
  have sf: "should_fail handler1 world0"
    by (simp add: should_fail_def handler1_def world0_def float_1_0_def)
  have st: "fst (failure_types ! random_choice world0) = 503"
    by (simp add: world0_def failure_types_def)
  show ?thesis
    using designation_independent_of_body[OF read_m1 parse_m1 designated_line_m1
        read_bad_json parse_bad_json designated_line_unknown, of handler1 world0]
      read_m1 parse_m1 read_bad_json parse_bad_json sf st
      designated_line_m1[of world0 handler1] designated_line_unknown[of world0 handler1]
    by auto
qed

text \<open>
  C10 as stated fails with the same handler object and the same draws for the bodies
  \<^verbatim>\<open>{"messageId": "m1"}\<close> and \<^verbatim>\<open>[1]\<close>: at fail rate 1.0 the first fails with 503, the
  second gets no status, an exception leaves \<^verbatim>\<open>do_POST\<close> before \<^verbatim>\<open>random.choice\<close> is
  reached. It fails as well for the bodies \<^verbatim>\<open>{"messageId": "m1"}\<close> and
  \<^verbatim>\<open>{"messageId": "\ud800"}\<close>, both read and their message ids extracted: at fail rate
  0.0 the first gets 200 and the second, whose success line a UTF-8 console cannot write,
  gets 500.
\<close>

theorem body_decides_whether_a_status_is_sent:
  "status_of (events (snd (TransactionTestHandler_do_POST handler1 world0 req_m1))) = Some 503 \<and>
   status_of (events (snd (TransactionTestHandler_do_POST handler1 world0 req_list))) = None \<and>
   raised (snd (TransactionTestHandler_do_POST handler1 world0 req_list)) \<noteq> None \<and>
   parse_message_id req_m1 = Inr (JStr ''m1'') \<and>
   parse_message_id req_surrogate_id = Inr (JStr surrogate_d800) \<and>
   status_of (events (snd (TransactionTestHandler_do_POST handler0 world0 req_m1))) = Some 200 \<and>
   status_of (events (snd (TransactionTestHandler_do_POST handler0 world0 req_surrogate_id)))
     = Some 500"
proof -
  have a: "status_of (events (snd (TransactionTestHandler_do_POST handler1 world0 req_m1)))
             = Some 503"
    by (simp add: do_POST_status[OF read_m1 parse_m1 designated_line_safe[OF plain_ascii_m1]]
        should_fail_def handler1_def world0_def float_1_0_def failure_types_def)
  have b: "status_of (events (snd (TransactionTestHandler_do_POST handler1 world0 req_list)))
             = None"
    "raised (snd (TransactionTestHandler_do_POST handler1 world0 req_list)) \<noteq> None"
    by (simp_all add: do_POST_list slept_def handler1_def)
  have c: "status_of (events (snd (TransactionTestHandler_do_POST handler0 world0 req_m1)))
             = Some 200"
    by (simp add: do_POST_status[OF read_m1 parse_m1 designated_line_safe[OF plain_ascii_m1]]
        should_fail_def handler0_def world0_def float_0_0_def)
  from a b c parse_m1 parse_surrogate_id do_POST_surrogate_id show ?thesis
    by blast
qed

section \<open>Start-up\<close>

lemma validation_iff:
  "(float_le float_0_0 f \<and> float_le f float_1_0) = in_unit_interval f"
  by (cases f) (simp_all add: float_0_0_def float_1_0_def in_unit_interval_def)

text \<open>
  C7. If the fail rate after the demo override is outside the interval from 0.0 to 1.0,
  \<open>main\<close> prints the error line and exits with status 1 without constructing the server,
  and no connection is served; if it is inside, \<open>main\<close> constructs the server on the port
  with that fail rate and delay.
\<close>

theorem fail_rate_validated_before_bind:
  "(\<not> in_unit_interval (arg_fail_rate (resolved a)) \<longrightarrow>
      snd (main a) = SysExit 1 \<and>
      fst (main a) = snd (apply_demo a) @ [''Error: fail-rate must be between 0.0 and 1.0''] \<and>
      run_process a conns = []) \<and>
   (in_unit_interval (arg_fail_rate (resolved a)) \<longrightarrow>
      main a = (snd (apply_demo a),
                HTTPServer (arg_port (resolved a)) (arg_fail_rate (resolved a))
                  (arg_delay_ms (resolved a))))"
  by (simp add: main_def run_process_def resolved_def validation_iff split: prod.splits)

text \<open>The theorem at \<^verbatim>\<open>--fail-rate 1.5\<close> and at the default arguments.\<close>

theorem fail_rate_validated_before_bind_witness:
  "\<not> in_unit_interval (arg_fail_rate (resolved args_fail_rate_1_5)) \<and>
   main args_fail_rate_1_5 = ([''Error: fail-rate must be between 0.0 and 1.0''], SysExit 1) \<and>
   run_process args_fail_rate_1_5 [(POST, world0, req_m1)] = [] \<and>
   in_unit_interval (arg_fail_rate (resolved args_default)) \<and>
   main args_default = ([], HTTPServer 8080 float_0_0 0)"
proof -
  have o: "\<not> in_unit_interval (arg_fail_rate (resolved args_fail_rate_1_5))"
    by (simp add: resolved_def apply_demo_def args_fail_rate_1_5_def in_unit_interval_def)
  have i: "in_unit_interval (arg_fail_rate (resolved args_default))"
    by (simp add: resolved_def apply_demo_def args_default_def in_unit_interval_def
        float_0_0_def)
  have a1: "apply_demo args_fail_rate_1_5 = (args_fail_rate_1_5, [])"
    by (simp add: apply_demo_def args_fail_rate_1_5_def)
  have a2: "apply_demo args_default = (args_default, [])"
    by (simp add: apply_demo_def args_default_def)
  show ?thesis
    using fail_rate_validated_before_bind[of args_fail_rate_1_5 "[(POST, world0, req_m1)]"]
      fail_rate_validated_before_bind[of args_default "[]"] o i
    by (simp add: a1 a2 resolved_def prod_eq_iff) (simp add: args_default_def)
qed

text \<open>
  C8. With the \<^verbatim>\<open>--demo\<close> flag, whatever fail rate and delay are passed with it, \<open>main\<close>
  prints the demo notice and constructs the server with fail rate 0.3 and delay 500, and
  the handlers that serve the connections are made with these values.
\<close>

theorem demo_overrides_arguments:
  assumes "arg_demo a"
  shows "main a = ([''Demo mode: 30% failure rate, 500ms delay''],
                   HTTPServer (arg_port a) float_0_3 500) \<and>
         run_process a conns = serve_forever (create_handler float_0_3 500) conns"
  using assms
  by (simp add: main_def run_process_def apply_demo_def float_0_3_def float_0_0_def
      float_1_0_def)

text \<open>The theorem at \<^verbatim>\<open>--port 9090 --fail-rate 1.5 --delay-ms 7 --demo\<close>.\<close>

theorem demo_overrides_arguments_witness:
  "arg_demo args_demo_1_5 \<and> arg_fail_rate args_demo_1_5 = Finite (3 / 2) \<and>
   arg_delay_ms args_demo_1_5 = 7 \<and>
   main args_demo_1_5 = ([''Demo mode: 30% failure rate, 500ms delay''],
                         HTTPServer 9090 float_0_3 500)"
proof -
  have d: "arg_demo args_demo_1_5"
    by (simp add: args_demo_1_5_def)
  show ?thesis
    using demo_overrides_arguments[OF d, of "[]"] d
    by (simp add: args_demo_1_5_def)
qed

section \<open>PUT\<close>

text \<open>
  C9. In both servers \<^verbatim>\<open>do_PUT\<close> is \<^verbatim>\<open>do_POST\<close>: for every request, every state of the
  random source and the clock and every configuration, a PUT connection is handled with
  the same result as the POST connection: the same lines printed by the handler, the same
  response sent, the same exception raised if any.
\<close>

theorem put_handled_as_post:
  "TransactionTestHandler_do_PUT self w r = TransactionTestHandler_do_POST self w r \<and>
   TransactionTestHandler fr d (PUT, w, r) = TransactionTestHandler fr d (POST, w, r) \<and>
   JMSMessageHandler_do_PUT w r = JMSMessageHandler_do_POST w r \<and>
   JMSMessageHandler (PUT, w, r) = JMSMessageHandler (POST, w, r)"
  by (simp add: TransactionTestHandler_do_PUT_def TransactionTestHandler_def
      JMSMessageHandler_do_PUT_def JMSMessageHandler_def)

end
